theory Spec2Isabelle
  imports Complex_Main "HOL-Library.AList" "HOL-Library.Sublist"
begin

section \<open>The piano-roll component of daw-ui (src/daw-ui/src/PianoRoll.tsx)\<close>

text \<open>
  The component keeps its state in React state cells and refs. A handler is modelled as a
  function from the state of the render in which it was created to the state after it:
  \<^item> a state cell (\<open>const [tracks, setTracks] = useState(...)\<close>) is a \<open>const\<close> of its
    render, so every read inside a handler sees the value the handler started with,
    also after a \<open>set...\<close> call and after an \<open>await\<close>; \<open>set...\<close> fixes the value of
    the next render;
  \<^item> a ref (\<open>lastSongData\<close>, \<open>wavSynthId\<close>) and the module variable
    \<open>synthIdCounter\<close> are mutable and are read and written at once;
  \<^item> a \<open>fetch\<close> either rejects (the \<open>await\<close> throws and the rest of the handler is
    skipped) or resolves, whatever the HTTP status;
  \<^item> JavaScript numbers are modelled as rationals (the beat grid holds the multiples of
    \<open>0.5\<close> below 16, on which the arithmetic of the handlers is exact), and
    \<open>JSON.stringify\<close> of the song as the structured value it prints.
\<close>

subsection \<open>Data model\<close>

text \<open>\<open>type NoteEvent = [string, number, number]\<close>: note(s), start, duration.\<close>

type_synonym NoteEvent = "string \<times> rat \<times> rat"

datatype TrackType = Track | WavTrack

record SynthConfig =
  id_cfg :: string
  sample_rate :: int
  bpm_cfg :: int
  volume :: "rat option"
  waveform :: "string option"
  attack :: "rat option"
  decay :: "rat option"
  sustain :: "rat option"
  release :: "rat option"

record Track =
  name :: string
  cfg_id :: string
  events :: "NoteEvent list"
  gain :: rat
  type :: TrackType
  wavFile :: "string option"
  fullPath :: "string option"

text \<open>The form of the "add track" box (\<open>newTrack\<close>).\<close>

record NewTrack =
  nt_name :: string
  nt_type :: TrackType
  nt_wavFile :: "string option"
  nt_fullPath :: "string option"

text \<open>What \<open>buildSynthConfigsObj\<close> and \<open>buildTracksObj\<close> put into the song; a field that
  is \<open>None\<close> is absent from the JSON text.\<close>

record SynthConfigObj =
  o_id :: string
  o_sample_rate :: int
  o_bpm :: int
  o_volume :: "rat option"
  o_waveform :: "string option"
  o_attack :: "rat option"
  o_decay :: "rat option"
  o_sustain :: "rat option"
  o_release :: "rat option"

record TrackObj =
  o_name :: string
  o_cfg_id :: string
  o_events :: "NoteEvent list"
  o_gain :: rat
  o_type :: TrackType

text \<open>The body of \<open>/create_song\<close>. An object is the list of its entries in insertion order.\<close>

record SongData =
  o_samples :: "(string \<times> string) list"
  o_SynthConfigs :: "SynthConfigObj list"
  o_Tracks :: "TrackObj list"

datatype request =
  CreateSong SongData
  | PlaySong
  | LlmEditSong string
  | RevertSong
  | SaveSong

text \<open>The JSON of a response, as far as the handlers read it.\<close>

record SongResponse =
  r_Tracks :: "Track list"
  r_SynthConfigs :: "SynthConfig list"
  r_samples :: "(string \<times> string) list option"

datatype 'a fetch_result = Rejected | Resolved 'a

datatype error = FetchFailed

record PianoRoll =
  bpm :: int
  tracks :: "Track list"
  synthConfigs :: "SynthConfig list"
  selectedTrackIdx :: int
  dirty :: bool
  chatPrompt :: string
  chatLoading :: bool
  samples :: "(string \<times> string) list"
  newTrack :: NewTrack
  dragStart :: "(string \<times> rat) option"
  dragCurrent :: "(string \<times> rat) option"
  wavSynthId :: string
  lastSongData :: "SongData option"
  synthIdCounter :: nat
  net :: "request list"

subsection \<open>Helpers\<close>

text \<open>\<open>s.split('+')\<close>: the pieces between the plus signs, at least one piece.\<close>

fun split_plus :: "string \<Rightarrow> string list" where
  "split_plus [] = [[]]"
| "split_plus (c # cs) =
     (if c = CHR ''+'' then [] # split_plus cs
      else (c # hd (split_plus cs)) # tl (split_plus cs))"

text \<open>The pairs \<open>(idx, element)\<close> that \<open>map\<close> and \<open>filter\<close> hand to a two-argument callback.\<close>

definition indexed :: "'a list \<Rightarrow> (int \<times> 'a) list" where
  "indexed xs = zip (map int [0..<length xs]) xs"

text \<open>\<open>tracks[selectedTrackIdx]\<close>, \<open>undefined\<close> out of range.\<close>

definition selectedTrack :: "PianoRoll \<Rightarrow> Track option" where
  "selectedTrack s =
     (if 0 \<le> selectedTrackIdx s \<and> selectedTrackIdx s < int (length (tracks s))
      then Some (tracks s ! nat (selectedTrackIdx s)) else None)"

definition selectedSynthConfig :: "PianoRoll \<Rightarrow> SynthConfig option" where
  "selectedSynthConfig s =
     (case selectedTrack s of
        None \<Rightarrow> None
      | Some t \<Rightarrow> find (\<lambda>cfg. id_cfg cfg = cfg_id t) (synthConfigs s))"

subsection \<open>Piano roll note editing\<close>

definition updateTrackEvents :: "NoteEvent list \<Rightarrow> PianoRoll \<Rightarrow> PianoRoll" where
  "updateTrackEvents newEvents s =
     s\<lparr>tracks := map (\<lambda>(idx, t). if idx = selectedTrackIdx s then t\<lparr>events := newEvents\<rparr> else t)
                     (indexed (tracks s)),
       dirty := True\<rparr>"

text \<open>The button test \<open>e.button !== 0\<close> is the argument \<open>button\<close>; \<open>None\<close> is a call without event.\<close>

definition handleNoteMouseDown :: "string \<Rightarrow> rat \<Rightarrow> nat option \<Rightarrow> PianoRoll \<Rightarrow> PianoRoll" where
  "handleNoteMouseDown pitch beat button s =
     (if button \<noteq> None \<and> button \<noteq> Some 0 then s
      else s\<lparr>dragStart := Some (pitch, beat), dragCurrent := Some (pitch, beat)\<rparr>)"

definition handleNoteMouseEnter :: "string \<Rightarrow> rat \<Rightarrow> PianoRoll \<Rightarrow> PianoRoll" where
  "handleNoteMouseEnter pitch beat s =
     (if dragStart s \<noteq> None then s\<lparr>dragCurrent := Some (pitch, beat)\<rparr> else s)"

definition handleNoteMouseUp :: "string \<Rightarrow> rat \<Rightarrow> PianoRoll \<Rightarrow> PianoRoll" where
  "handleNoteMouseUp pitch beat s =
     (case selectedTrack s of
        None \<Rightarrow> s
      | Some t \<Rightarrow>
          (case (dragStart s, dragCurrent s) of
             (Some ds, Some dc) \<Rightarrow>
               (let start = min (snd ds) (snd dc);
                    end = max (snd ds) (snd dc);
                    duration = end - start + 0.5;
                    evs = filter (\<lambda>ev. \<not> (fst ds \<in> set (split_plus (fst ev))
                                          \<and> fst (snd ev) \<ge> start \<and> fst (snd ev) \<le> end))
                            (events t)
                in updateTrackEvents (evs @ [(fst ds, start, duration)]) s)
           | _ \<Rightarrow> s)
          \<lparr>dragStart := None, dragCurrent := None\<rparr>)"

definition handleNoteContextMenu :: "string \<Rightarrow> rat \<Rightarrow> PianoRoll \<Rightarrow> PianoRoll" where
  "handleNoteContextMenu pitch beat s =
     (case selectedTrack s of
        None \<Rightarrow> s
      | Some t \<Rightarrow>
          updateTrackEvents
            (filter (\<lambda>ev. \<not> (pitch \<in> set (split_plus (fst ev))
                            \<and> beat \<ge> fst (snd ev) \<and> beat < fst (snd ev) + snd (snd ev)))
               (events t)) s)"

subsection \<open>Track list\<close>

definition handleSelectTrack :: "int \<Rightarrow> PianoRoll \<Rightarrow> PianoRoll" where
  "handleSelectTrack idx s = s\<lparr>selectedTrackIdx := idx\<rparr>"

definition handleRemoveTrack :: "int \<Rightarrow> PianoRoll \<Rightarrow> PianoRoll" where
  "handleRemoveTrack idx s =
     s\<lparr>tracks := map snd (filter (\<lambda>(i, t). i \<noteq> idx) (indexed (tracks s))),
       dirty := True,
       selectedTrackIdx :=
         (if selectedTrackIdx s = idx then - 1
          else if selectedTrackIdx s > idx then selectedTrackIdx s - 1
          else selectedTrackIdx s)\<rparr>"

subsection \<open>Add track\<close>

text \<open>The decimal digits of a number, as the template string \<open>`synth-${n}`\<close> prints it.\<close>

fun decimal :: "nat \<Rightarrow> string" where
  "decimal n =
     (if n < 10 then [char_of (48 + n)]
      else decimal (n div 10) @ [char_of (48 + n mod 10)])"

declare decimal.simps [simp del]

definition getNextSynthId :: "PianoRoll \<Rightarrow> string \<times> PianoRoll" where
  "getNextSynthId s =
     (''synth-'' @ decimal (synthIdCounter s), s\<lparr>synthIdCounter := Suc (synthIdCounter s)\<rparr>)"

definition defaultSynthParams :: "string \<Rightarrow> int \<Rightarrow> SynthConfig" where
  "defaultSynthParams synthId b =
     \<lparr>id_cfg = synthId, sample_rate = 44100, bpm_cfg = b,
      volume = Some 0.5, waveform = Some ''sine'', attack = Some 0.01,
      decay = Some 0.05, sustain = Some 0.8, release = Some 0.05\<rparr>"

definition emptyNewTrack :: NewTrack where
  "emptyNewTrack = \<lparr>nt_name = [], nt_type = Track, nt_wavFile = None, nt_fullPath = None\<rparr>"

definition handleAddTrack :: "PianoRoll \<Rightarrow> PianoRoll" where
  "handleAddTrack s =
     (if nt_name (newTrack s) = [] then s
      else
        (if nt_type (newTrack s) = Track then
           (let (synthId, s1) = getNextSynthId s;
                newTracks = tracks s @
                  [\<lparr>name = nt_name (newTrack s), cfg_id = synthId, events = [], gain = 1,
                    type = Track, wavFile = None, fullPath = None\<rparr>]
            in s1\<lparr>synthConfigs := synthConfigs s @ [defaultSynthParams synthId (bpm s)],
                  tracks := newTracks,
                  selectedTrackIdx := int (length newTracks) - 1\<rparr>)
         else
           (let newTracks = tracks s @
                  [\<lparr>name = nt_name (newTrack s), cfg_id = wavSynthId s, events = [], gain = 1,
                    type = WavTrack, wavFile = nt_wavFile (newTrack s),
                    fullPath = nt_fullPath (newTrack s)\<rparr>]
            in s\<lparr>tracks := newTracks,
                 selectedTrackIdx := int (length newTracks) - 1,
                 synthConfigs :=
                   (if find (\<lambda>cfg. id_cfg cfg = wavSynthId s) (synthConfigs s) = None
                    then synthConfigs s @
                      [\<lparr>id_cfg = wavSynthId s, sample_rate = 44100, bpm_cfg = bpm s,
                        volume = None, waveform = None, attack = None,
                        decay = None, sustain = None, release = None\<rparr>]
                    else synthConfigs s)\<rparr>))
        \<lparr>newTrack := emptyNewTrack, dirty := True\<rparr>)"

subsection \<open>Parameter box\<close>

text \<open>\<open>{ ...cfg, [param]: value }\<close> for each key of \<open>SynthConfig\<close>.\<close>

datatype SynthParam =
  P_id string
  | P_sample_rate int
  | P_bpm int
  | P_volume rat
  | P_waveform string
  | P_attack rat
  | P_decay rat
  | P_sustain rat
  | P_release rat

fun set_param :: "SynthParam \<Rightarrow> SynthConfig \<Rightarrow> SynthConfig" where
  "set_param (P_id v) cfg = cfg\<lparr>id_cfg := v\<rparr>"
| "set_param (P_sample_rate v) cfg = cfg\<lparr>sample_rate := v\<rparr>"
| "set_param (P_bpm v) cfg = cfg\<lparr>bpm_cfg := v\<rparr>"
| "set_param (P_volume v) cfg = cfg\<lparr>volume := Some v\<rparr>"
| "set_param (P_waveform v) cfg = cfg\<lparr>waveform := Some v\<rparr>"
| "set_param (P_attack v) cfg = cfg\<lparr>attack := Some v\<rparr>"
| "set_param (P_decay v) cfg = cfg\<lparr>decay := Some v\<rparr>"
| "set_param (P_sustain v) cfg = cfg\<lparr>sustain := Some v\<rparr>"
| "set_param (P_release v) cfg = cfg\<lparr>release := Some v\<rparr>"

definition handleSynthParamChange :: "SynthParam \<Rightarrow> PianoRoll \<Rightarrow> PianoRoll" where
  "handleSynthParamChange p s =
     (case selectedSynthConfig s of
        None \<Rightarrow> s
      | Some sel \<Rightarrow>
          s\<lparr>synthConfigs :=
              map (\<lambda>cfg. if id_cfg cfg = id_cfg sel then set_param p cfg else cfg) (synthConfigs s),
            dirty := True\<rparr>)"

definition handleTrackGainChange :: "rat \<Rightarrow> PianoRoll \<Rightarrow> PianoRoll" where
  "handleTrackGainChange v s =
     s\<lparr>tracks := map (\<lambda>(idx, t). if idx = selectedTrackIdx s then t\<lparr>gain := v\<rparr> else t)
                     (indexed (tracks s)),
       dirty := True\<rparr>"

subsection \<open>Backend helpers\<close>

text \<open>A string that may be \<open>undefined\<close> is truthy when it is defined and not empty.\<close>

definition truthy :: "string option \<Rightarrow> bool" where
  "truthy x = (x \<noteq> None \<and> x \<noteq> Some [])"

text \<open>\<open>a || b\<close> on such strings.\<close>

definition or_str :: "string option \<Rightarrow> string option \<Rightarrow> string option" where
  "or_str a b = (if truthy a then a else b)"

text \<open>The callback of \<open>tracks.forEach\<close> in \<open>buildSamplesObj\<close>; \<open>samplesObj[k] = v\<close> replaces the
  entry of an existing key in place and appends a new key.\<close>

definition put_sample :: "Track \<Rightarrow> (string \<times> string) list \<Rightarrow> (string \<times> string) list" where
  "put_sample t samplesObj =
     (if type t = WavTrack \<and> truthy (or_str (fullPath t) (wavFile t))
      then AList.update (name t)
             (case or_str (or_str (fullPath t) (wavFile t)) (Some [])
                of Some v \<Rightarrow> v | None \<Rightarrow> [])
             samplesObj
      else samplesObj)"

definition buildSamplesObj :: "PianoRoll \<Rightarrow> (string \<times> string) list" where
  "buildSamplesObj s =
     (if length (samples s) > 0 then samples s
      else fold put_sample (tracks s) [])"

definition buildSynthConfigsObj :: "PianoRoll \<Rightarrow> SynthConfigObj list" where
  "buildSynthConfigsObj s =
     map (\<lambda>cfg.
            if list_ex (\<lambda>t. cfg_id t = id_cfg cfg \<and> type t = Track) (tracks s)
            then \<lparr>o_id = id_cfg cfg, o_sample_rate = 44100, o_bpm = bpm s,
                  o_volume = volume cfg, o_waveform = waveform cfg, o_attack = attack cfg,
                  o_decay = decay cfg, o_sustain = sustain cfg, o_release = release cfg\<rparr>
            else \<lparr>o_id = id_cfg cfg, o_sample_rate = 44100, o_bpm = bpm s,
                  o_volume = None, o_waveform = None, o_attack = None,
                  o_decay = None, o_sustain = None, o_release = None\<rparr>)
         (synthConfigs s)"

definition buildTracksObj :: "PianoRoll \<Rightarrow> TrackObj list" where
  "buildTracksObj s =
     map (\<lambda>t. \<lparr>o_name = name t, o_cfg_id = cfg_id t, o_events = events t,
                o_gain = gain t, o_type = type t\<rparr>)
         (tracks s)"

text \<open>The argument of \<open>JSON.stringify\<close> in \<open>ensureSongIsCurrent\<close> and \<open>handleChat\<close>.\<close>

definition songData :: "PianoRoll \<Rightarrow> SongData" where
  "songData s =
     \<lparr>o_samples = buildSamplesObj s,
      o_SynthConfigs = buildSynthConfigsObj s,
      o_Tracks = buildTracksObj s\<rparr>"

subsection \<open>Song sync\<close>

text \<open>
  The first component of a result is the error thrown, if any; the state is the one the
  component is left in. \<open>net\<close> lists the requests issued, a rejected one included.
  \<open>lastSongData\<close> starts as the empty string, which no JSON text equals: \<open>None\<close>.
\<close>

definition send :: "request \<Rightarrow> PianoRoll \<Rightarrow> PianoRoll" where
  "send r s = s\<lparr>net := net s @ [r]\<rparr>"

definition ensureSongIsCurrent :: "nat fetch_result \<Rightarrow> PianoRoll \<Rightarrow> error option \<times> PianoRoll" where
  "ensureSongIsCurrent f s =
     (if \<not> dirty s \<and> Some (songData s) = lastSongData s then (None, s)
      else
        (case f of
           Rejected \<Rightarrow> (Some FetchFailed, send (CreateSong (songData s)) s)
         | Resolved status \<Rightarrow>
             (None, (send (CreateSong (songData s)) s)
                      \<lparr>lastSongData := Some (songData s), dirty := False\<rparr>)))"

definition handlePlay :: "nat fetch_result \<Rightarrow> nat fetch_result \<Rightarrow> PianoRoll \<Rightarrow> error option \<times> PianoRoll" where
  "handlePlay f1 f2 s =
     (case ensureSongIsCurrent f1 s of
        (Some e, s1) \<Rightarrow> (Some e, s1)
      | (None, s1) \<Rightarrow>
          (case f2 of
             Rejected \<Rightarrow> (Some FetchFailed, send PlaySong s1)
           | Resolved audio \<Rightarrow> (None, send PlaySong s1)))"

text \<open>
  In \<open>handleChat\<close> the three \<open>build...\<close> calls after \<open>setTracks\<close> and \<open>setSynthConfigs\<close>
  read \<open>samples\<close>, \<open>synthConfigs\<close>, \<open>tracks\<close> and \<open>bpm\<close> of the render the handler belongs
  to: the value stored in \<open>lastSongData\<close> is \<open>songData s\<close> for the state \<open>s\<close> the handler
  started with.
\<close>

definition handleChat ::
  "nat fetch_result \<Rightarrow> SongResponse fetch_result \<Rightarrow> nat fetch_result \<Rightarrow> PianoRoll
     \<Rightarrow> error option \<times> PianoRoll" where
  "handleChat f1 f2 f3 s =
     (case ensureSongIsCurrent f1 (s\<lparr>chatLoading := True\<rparr>) of
        (Some e, s1) \<Rightarrow> (Some e, s1)
      | (None, s1) \<Rightarrow>
          (case f2 of
             Rejected \<Rightarrow> (Some FetchFailed, send (LlmEditSong (chatPrompt s)) s1)
           | Resolved data \<Rightarrow>
               (let s2 = (send (LlmEditSong (chatPrompt s)) s1)
                           \<lparr>tracks := r_Tracks data,
                            synthConfigs := r_SynthConfigs data,
                            dirty := False,
                            lastSongData := Some (songData s),
                            selectedTrackIdx := 0,
                            chatPrompt := [],
                            chatLoading := False\<rparr>
                in (case f3 of
                      Rejected \<Rightarrow> (Some FetchFailed, send PlaySong s2)
                    | Resolved audio \<Rightarrow> (None, send PlaySong s2)))))"

definition handleRevert :: "SongResponse fetch_result \<Rightarrow> PianoRoll \<Rightarrow> error option \<times> PianoRoll" where
  "handleRevert f s =
     (case f of
        Rejected \<Rightarrow> (Some FetchFailed, send RevertSong s)
      | Resolved data \<Rightarrow>
          (None, (send RevertSong s)
                   \<lparr>tracks := r_Tracks data,
                    synthConfigs := r_SynthConfigs data,
                    samples := (case r_samples data of Some m \<Rightarrow> m | None \<Rightarrow> []),
                    selectedTrackIdx := 0,
                    dirty := False\<rparr>))"

definition handleSave :: "nat fetch_result \<Rightarrow> nat fetch_result \<Rightarrow> PianoRoll \<Rightarrow> error option \<times> PianoRoll" where
  "handleSave f1 f2 s =
     (case ensureSongIsCurrent f1 s of
        (Some e, s1) \<Rightarrow> (Some e, s1)
      | (None, s1) \<Rightarrow>
          (case f2 of
             Rejected \<Rightarrow> (Some FetchFailed, send SaveSong s1)
           | Resolved status \<Rightarrow> (None, send SaveSong s1)))"

subsection \<open>The component as a transition system\<close>

text \<open>
  Every render evaluates the argument of \<open>useRef<string>(getNextSynthId())\<close> again, although
  only the first value is kept in \<open>wavSynthId\<close>: a render spends one identifier.
\<close>

definition render :: "PianoRoll \<Rightarrow> PianoRoll" where
  "render s = snd (getNextSynthId s)"

text \<open>The state after the first render of a freshly loaded module.\<close>

definition init :: PianoRoll where
  "init =
     \<lparr>bpm = 120, tracks = [], synthConfigs = [], selectedTrackIdx = - 1, dirty = False,
      chatPrompt = [], chatLoading = False, samples = [], newTrack = emptyNewTrack,
      dragStart = None, dragCurrent = None, wavSynthId = ''synth-1'',
      lastSongData = None, synthIdCounter = 2, net = []\<rparr>"

text \<open>The edits of the song: the handlers behind the track list, the add-track box, the
  parameter box and the grid (release of a drag, secondary click).\<close>

datatype mutation =
  AddTrack
  | RemoveTrack int
  | SynthParamChange SynthParam
  | TrackGainChange rat
  | NoteCommit string rat
  | NoteRemoval string rat

fun mutate :: "mutation \<Rightarrow> PianoRoll \<Rightarrow> PianoRoll" where
  "mutate AddTrack s = handleAddTrack s"
| "mutate (RemoveTrack idx) s = handleRemoveTrack idx s"
| "mutate (SynthParamChange p) s = handleSynthParamChange p s"
| "mutate (TrackGainChange v) s = handleTrackGainChange v s"
| "mutate (NoteCommit pitch beat) s = handleNoteMouseUp pitch beat s"
| "mutate (NoteRemoval pitch beat) s = handleNoteContextMenu pitch beat s"

text \<open>The handler does not leave through one of its early returns, and (for the release)
  a drag is under way.\<close>

fun takes_effect :: "mutation \<Rightarrow> PianoRoll \<Rightarrow> bool" where
  "takes_effect AddTrack s = (nt_name (newTrack s) \<noteq> [])"
| "takes_effect (RemoveTrack idx) s = True"
| "takes_effect (SynthParamChange p) s = (selectedSynthConfig s \<noteq> None)"
| "takes_effect (TrackGainChange v) s = True"
| "takes_effect (NoteCommit pitch beat) s =
     (selectedTrack s \<noteq> None \<and> dragStart s \<noteq> None \<and> dragCurrent s \<noteq> None)"
| "takes_effect (NoteRemoval pitch beat) s = (selectedTrack s \<noteq> None)"

text \<open>The events of the user interface. \<open>NewTrackInput\<close> carries the form of the add-track
  box after one of its inputs changed it; the fetch results are what the network answers
  to the requests of the handler, in order.\<close>

datatype ui_event =
  Mutate mutation
  | BpmInput int
  | NewTrackInput NewTrack
  | SelectTrack int
  | NoteMouseDown string rat "nat option"
  | NoteMouseEnter string rat
  | ChatPromptInput string
  | Play "nat fetch_result" "nat fetch_result"
  | Save "nat fetch_result" "nat fetch_result"
  | Revert "SongResponse fetch_result"
  | Chat "nat fetch_result" "SongResponse fetch_result" "nat fetch_result"

fun handle :: "ui_event \<Rightarrow> PianoRoll \<Rightarrow> PianoRoll" where
  "handle (Mutate m) s = mutate m s"
| "handle (BpmInput b) s = s\<lparr>bpm := b, dirty := True\<rparr>"
| "handle (NewTrackInput nt) s = s\<lparr>newTrack := nt\<rparr>"
| "handle (SelectTrack idx) s = handleSelectTrack idx s"
| "handle (NoteMouseDown pitch beat button) s = handleNoteMouseDown pitch beat button s"
| "handle (NoteMouseEnter pitch beat) s = handleNoteMouseEnter pitch beat s"
| "handle (ChatPromptInput p) s = s\<lparr>chatPrompt := p\<rparr>"
| "handle (Play f1 f2) s = snd (handlePlay f1 f2 s)"
| "handle (Save f1 f2) s = snd (handleSave f1 f2 s)"
| "handle (Revert f) s = snd (handleRevert f s)"
| "handle (Chat f1 f2 f3) s = snd (handleChat f1 f2 f3 s)"

fun is_revert :: "ui_event \<Rightarrow> bool" where
  "is_revert (Revert f) = True"
| "is_revert e = False"

definition step :: "ui_event \<Rightarrow> PianoRoll \<Rightarrow> PianoRoll" where
  "step e s = render (handle e s)"

definition run :: "ui_event list \<Rightarrow> PianoRoll \<Rightarrow> PianoRoll" where
  "run es s = fold step es s"

text \<open>Consecutive calls of \<open>ensureSongIsCurrent\<close> whose pushes, if any, resolve with the
  given statuses.\<close>

definition ensure_each :: "nat list \<Rightarrow> PianoRoll \<Rightarrow> PianoRoll" where
  "ensure_each sts s = fold (\<lambda>st s'. snd (ensureSongIsCurrent (Resolved st) s')) sts s"

subsection \<open>Vocabulary of the specification\<close>

text \<open>The events of the selected track, none without a selected track.\<close>

definition selectedEvents :: "PianoRoll \<Rightarrow> NoteEvent list" where
  "selectedEvents s = (case selectedTrack s of None \<Rightarrow> [] | Some t \<Rightarrow> events t)"

definition pitches_of :: "NoteEvent \<Rightarrow> string set" where
  "pitches_of ev = set (split_plus (fst ev))"

text \<open>Two events overlap when their intervals \<open>[start, start + duration)\<close> meet.\<close>

definition overlap :: "NoteEvent \<Rightarrow> NoteEvent \<Rightarrow> bool" where
  "overlap e1 e2 =
     (fst (snd e1) < fst (snd e2) + snd (snd e2) \<and> fst (snd e2) < fst (snd e1) + snd (snd e1))"

text \<open>The event covers the cell: it sounds the pitch and the beat lies in its interval.\<close>

definition covers :: "NoteEvent \<Rightarrow> string \<Rightarrow> rat \<Rightarrow> bool" where
  "covers ev pitch beat =
     (pitch \<in> pitches_of ev \<and> fst (snd ev) \<le> beat \<and> beat < fst (snd ev) + snd (snd ev))"

text \<open>The interval of the event meets the closed range \<open>[lo, hi]\<close>.\<close>

definition meets_range :: "NoteEvent \<Rightarrow> rat \<Rightarrow> rat \<Rightarrow> bool" where
  "meets_range ev lo hi = (fst (snd ev) \<le> hi \<and> lo < fst (snd ev) + snd (snd ev))"

text \<open>The config is referenced by at least one track of type \<open>'Track'\<close>.\<close>

definition synth_referenced :: "PianoRoll \<Rightarrow> SynthConfig \<Rightarrow> bool" where
  "synth_referenced s cfg = (\<exists>t \<in> set (tracks s). type t = Track \<and> cfg_id t = id_cfg cfg)"

definition no_envelope :: "SynthConfigObj \<Rightarrow> bool" where
  "no_envelope c =
     (o_volume c = None \<and> o_waveform c = None \<and> o_attack c = None
      \<and> o_decay c = None \<and> o_sustain c = None \<and> o_release c = None)"

text \<open>The file reference of a sample track: the full path if one was entered, else the
  name of the chosen file, if any.\<close>

definition file_reference :: "Track \<Rightarrow> string option" where
  "file_reference t =
     (if type t \<noteq> WavTrack then None
      else if truthy (fullPath t) then fullPath t
      else if truthy (wavFile t) then wavFile t
      else None)"

text \<open>Every track of the response refers to a config of the response.\<close>

definition cfg_ids_resolve :: "SongResponse \<Rightarrow> bool" where
  "cfg_ids_resolve r =
     list_all (\<lambda>t. list_ex (\<lambda>cfg. id_cfg cfg = cfg_id t) (r_SynthConfigs r)) (r_Tracks r)"

subsection \<open>Example data\<close>

definition synthTrack :: "string \<Rightarrow> string \<Rightarrow> NoteEvent list \<Rightarrow> Track" where
  "synthTrack nm cid evs =
     \<lparr>name = nm, cfg_id = cid, events = evs, gain = 1, type = Track,
      wavFile = None, fullPath = None\<rparr>"

definition wavTrack :: "string \<Rightarrow> string \<Rightarrow> string \<Rightarrow> Track" where
  "wavTrack nm cid path =
     \<lparr>name = nm, cfg_id = cid, events = [], gain = 1, type = WavTrack,
      wavFile = Some nm, fullPath = Some path\<rparr>"

definition bareConfig :: "string \<Rightarrow> SynthConfig" where
  "bareConfig cid =
     \<lparr>id_cfg = cid, sample_rate = 44100, bpm_cfg = 120, volume = None, waveform = None,
      attack = None, decay = None, sustain = None, release = None\<rparr>"

text \<open>Three synth tracks, the last one selected.\<close>

definition three_tracks :: PianoRoll where
  "three_tracks =
     init\<lparr>tracks := [synthTrack ''bass'' ''synth-3'' [], synthTrack ''lead'' ''synth-5'' [],
                     synthTrack ''pad'' ''synth-7'' []],
          synthConfigs := [defaultSynthParams ''synth-3'' 120, defaultSynthParams ''synth-5'' 120,
                           defaultSynthParams ''synth-7'' 120],
          selectedTrackIdx := 2\<rparr>"

text \<open>One selected synth track with the given events.\<close>

definition lead_with :: "NoteEvent list \<Rightarrow> PianoRoll" where
  "lead_with evs =
     init\<lparr>tracks := [synthTrack ''lead'' ''synth-3'' evs],
          synthConfigs := [defaultSynthParams ''synth-3'' 120],
          selectedTrackIdx := 0\<rparr>"

text \<open>Add a track, draw a note on C4 from beat 2 to beat 3, then click C4 at beat 3.\<close>

definition two_drags :: "ui_event list" where
  "two_drags =
     [NewTrackInput \<lparr>nt_name = ''lead'', nt_type = Track, nt_wavFile = None, nt_fullPath = None\<rparr>,
      Mutate AddTrack,
      NoteMouseDown ''C4'' 2 (Some 0), NoteMouseEnter ''C4'' (5/2), NoteMouseEnter ''C4'' 3,
      Mutate (NoteCommit ''C4'' 3),
      NoteMouseDown ''C4'' 3 (Some 0),
      Mutate (NoteCommit ''C4'' 3)]"

text \<open>A response with one synth track and its config.\<close>

definition edited :: SongResponse where
  "edited =
     \<lparr>r_Tracks = [synthTrack ''lead'' ''synth-3'' []],
      r_SynthConfigs = [defaultSynthParams ''synth-3'' 120],
      r_samples = None\<rparr>"

text \<open>A response whose only track refers to a config that the response does not hold.\<close>

definition dangling :: SongResponse where
  "dangling =
     \<lparr>r_Tracks = [synthTrack ''lead'' ''ghost'' []], r_SynthConfigs = [], r_samples = None\<rparr>"

text \<open>A persisted song with a synth track and a sample track on the same config, and the
  component after a revert to it.\<close>

definition shared_song :: SongResponse where
  "shared_song =
     \<lparr>r_Tracks = [synthTrack ''lead'' ''synth-1'' [],
                  wavTrack ''kick'' ''synth-1'' ''/tmp/kick.wav''],
      r_SynthConfigs = [defaultSynthParams ''synth-1'' 120],
      r_samples = None\<rparr>"

definition shared_cfg :: PianoRoll where
  "shared_cfg = step (Revert (Resolved shared_song)) init"

text \<open>A sample track on the shared sample config and a synth track on its own.\<close>

definition kick_and_lead :: PianoRoll where
  "kick_and_lead =
     init\<lparr>tracks := [wavTrack ''kick'' ''synth-1'' ''/tmp/kick.wav'',
                     synthTrack ''lead'' ''synth-3'' []],
          synthConfigs := [bareConfig ''synth-1'', defaultSynthParams ''synth-3'' 120],
          selectedTrackIdx := 1\<rparr>"

text \<open>A persisted song with one sample track and its samples object.\<close>

definition kick_reverted :: SongResponse where
  "kick_reverted =
     \<lparr>r_Tracks = [wavTrack ''kick'' ''synth-1'' ''/tmp/kick.wav''],
      r_SynthConfigs = [bareConfig ''synth-1''],
      r_samples = Some [(''kick'', ''/tmp/kick.wav'')]\<rparr>"

text \<open>Add the sample track "snare", then remove the first track.\<close>

definition add_snare :: "ui_event list" where
  "add_snare =
     [NewTrackInput \<lparr>nt_name = ''snare'', nt_type = WavTrack, nt_wavFile = Some ''snare.wav'',
                     nt_fullPath = Some ''/tmp/snare.wav''\<rparr>,
      Mutate AddTrack,
      Mutate (RemoveTrack 0)]"

section \<open>Basic facts\<close>

lemma split_plus_not_Nil: "split_plus s \<noteq> []"
  by (induction s) auto

lemma indexed_enumerate: "indexed xs = map (\<lambda>(i, x). (int i, x)) (enumerate 0 xs)"
  by (simp add: indexed_def enumerate_eq_zip zip_map1)

lemma filter_enumerate:
  "map snd (filter (\<lambda>(i, t). i \<noteq> idx) (map (\<lambda>(i, x). (int i, x)) (enumerate k xs))) =
     (if int k \<le> idx \<and> idx < int (k + length xs)
      then take (nat idx - k) xs @ drop (Suc (nat idx - k)) xs else xs)"
proof (induction xs arbitrary: k)
  case Nil
  then show ?case by simp
next
  case (Cons x xs)
  consider "idx = int k" | "idx < int k" | "int k < idx"
    by linarith
  then show ?case
  proof cases
    case 1
    then show ?thesis
      using Cons.IH [of "Suc k"] by simp
  next
    case 2
    then show ?thesis
      using Cons.IH [of "Suc k"] by simp
  next
    case 3
    then have "nat idx - k = Suc (nat idx - Suc k)"
      by linarith
    with 3 show ?thesis
      using Cons.IH [of "Suc k"] by auto
  qed
qed

text \<open>\<open>xs.filter((_, i) => i !== idx)\<close> drops the element at \<open>idx\<close>, if there is one.\<close>

lemma remove_at:
  "map snd (filter (\<lambda>(i, t). i \<noteq> idx) (indexed xs)) =
     (if 0 \<le> idx \<and> idx < int (length xs)
      then take (nat idx) xs @ drop (Suc (nat idx)) xs else xs)"
  using filter_enumerate [of idx 0 xs] by (simp add: indexed_enumerate)

lemma map_enumerate:
  "map (\<lambda>(i, t). if i = idx then f t else t) (map (\<lambda>(i, x). (int i, x)) (enumerate k xs)) =
     (if int k \<le> idx \<and> idx < int (k + length xs)
      then xs[nat idx - k := f (xs ! (nat idx - k))] else xs)"
proof (induction xs arbitrary: k)
  case Nil
  then show ?case by simp
next
  case (Cons x xs)
  consider "idx = int k" | "idx < int k" | "int k < idx"
    by linarith
  then show ?case
  proof cases
    case 1
    then show ?thesis
      using Cons.IH [of "Suc k"] by simp
  next
    case 2
    then show ?thesis
      using Cons.IH [of "Suc k"] by simp
  next
    case 3
    then have "nat idx - k = Suc (nat idx - Suc k)"
      by linarith
    with 3 show ?thesis
      using Cons.IH [of "Suc k"] by auto
  qed
qed

text \<open>\<open>xs.map((t, idx) => idx === i ? f(t) : t)\<close> changes the element at \<open>i\<close>, if there is one.\<close>

lemma update_at:
  "map (\<lambda>(i, t). if i = idx then f t else t) (indexed xs) =
     (if 0 \<le> idx \<and> idx < int (length xs)
      then xs[nat idx := f (xs ! nat idx)] else xs)"
  using map_enumerate [of idx f 0 xs] by (simp add: indexed_enumerate)

section \<open>Removing a track\<close>

text \<open>
  C9. \<open>handleRemoveTrack i\<close> removes exactly the track at index \<open>i\<close> and keeps the order of
  the others (an index without a track removes nothing). If \<open>i\<close> is the selected index the
  selection is cleared (\<open>-1\<close>); if \<open>i\<close> is below it the selected index goes down by exactly
  one, and then, for an index \<open>i\<close> of the list, the same track is selected as before;
  otherwise the selection is unchanged.
\<close>

theorem handleRemoveTrack_removes_one:
  "tracks (handleRemoveTrack i s) =
     (if 0 \<le> i \<and> i < int (length (tracks s))
      then take (nat i) (tracks s) @ drop (Suc (nat i)) (tracks s) else tracks s)
   \<and> selectedTrackIdx (handleRemoveTrack i s) =
     (if i = selectedTrackIdx s then - 1
      else if i < selectedTrackIdx s then selectedTrackIdx s - 1
      else selectedTrackIdx s)
   \<and> (0 \<le> i \<and> i < selectedTrackIdx s \<and> selectedTrackIdx s < int (length (tracks s))
        \<longrightarrow> selectedTrack (handleRemoveTrack i s) = selectedTrack s)"
proof -
  have t: "tracks (handleRemoveTrack i s) =
     (if 0 \<le> i \<and> i < int (length (tracks s))
      then take (nat i) (tracks s) @ drop (Suc (nat i)) (tracks s) else tracks s)"
    by (simp add: handleRemoveTrack_def remove_at)
  have sel: "selectedTrackIdx (handleRemoveTrack i s) =
     (if i = selectedTrackIdx s then - 1
      else if i < selectedTrackIdx s then selectedTrackIdx s - 1
      else selectedTrackIdx s)"
    by (simp add: handleRemoveTrack_def)
  have same: "selectedTrack (handleRemoveTrack i s) = selectedTrack s"
    if h: "0 \<le> i" "i < selectedTrackIdx s" "selectedTrackIdx s < int (length (tracks s))"
  proof -
    define k where "k = nat i"
    define m where "m = nat (selectedTrackIdx s)"
    have km: "k < m" "m < length (tracks s)" "i = int k" "selectedTrackIdx s = int m"
      using h by (simp_all add: k_def m_def)
    have "(take k (tracks s) @ drop (Suc k) (tracks s)) ! (m - 1) = tracks s ! m"
      using km by (simp add: nth_append min_def)
    then show ?thesis
      using km t sel by (simp add: selectedTrack_def nat_diff_distrib')
  qed
  from t sel same show ?thesis by blast
qed

theorem handleRemoveTrack_removes_one_witness:
  "tracks (handleRemoveTrack 0 three_tracks) =
     [synthTrack ''lead'' ''synth-5'' [], synthTrack ''pad'' ''synth-7'' []]
   \<and> selectedTrackIdx (handleRemoveTrack 0 three_tracks) = 1
   \<and> selectedTrack (handleRemoveTrack 0 three_tracks) = Some (synthTrack ''pad'' ''synth-7'' [])"
  using handleRemoveTrack_removes_one [of 0 three_tracks]
  by (simp add: three_tracks_def init_def selectedTrack_def)

section \<open>Note editing\<close>

lemmas handler_defs =
  handleNoteMouseDown_def handleNoteMouseEnter_def handleNoteMouseUp_def
  handleNoteContextMenu_def updateTrackEvents_def handleAddTrack_def getNextSynthId_def
  selectedTrack_def indexed_def emptyNewTrack_def

text \<open>What a release does when a track is selected and a drag is under way: the events of
  the selected track that sound the anchor pitch and \<^emph>\<open>start\<close> in the drawn range go, the
  new note is appended, and the drag is over.\<close>

lemma handleNoteMouseUp_commit:
  assumes "selectedTrack s = Some t" and "dragStart s = Some (p, a)"
    and "dragCurrent s = Some (q, b)"
  shows "handleNoteMouseUp pitch beat s =
     s\<lparr>tracks := (tracks s)[nat (selectedTrackIdx s) :=
                    t\<lparr>events :=
                        filter (\<lambda>ev. \<not> (p \<in> pitches_of ev \<and> min a b \<le> fst (snd ev)
                                        \<and> fst (snd ev) \<le> max a b)) (events t)
                        @ [(p, min a b, max a b - min a b + 1/2)]\<rparr>],
       dirty := True, dragStart := None, dragCurrent := None\<rparr>"
  using assms
  by (auto simp add: handleNoteMouseUp_def updateTrackEvents_def update_at pitches_of_def
      selectedTrack_def Let_def split: if_splits)

lemma handleNoteMouseUp_no_track:
  "selectedTrack s = None \<Longrightarrow> handleNoteMouseUp pitch beat s = s"
  by (simp add: handleNoteMouseUp_def)

text \<open>
  C1. Any two events of a track that share a pitch have disjoint intervals, after every
  sequence of releases and point-removals from an empty track. The code does not keep this:
  a release removes the events on the anchor pitch whose start lies in the drawn range and
  keeps one that starts before the range and reaches into it. Drawing C4 from beat 2 to
  beat 3 and then clicking C4 at beat 3 leaves the events \<open>[2, 3.5)\<close> and \<open>[3, 3.5)\<close>
  on C4.
\<close>

theorem two_drags_overlap:
  "selectedEvents (run two_drags init) = [(''C4'', 2, 3/2), (''C4'', 3, 1/2)]
   \<and> ''C4'' \<in> pitches_of (''C4'', 2, 3/2) \<inter> pitches_of (''C4'', 3, 1/2)
   \<and> overlap (''C4'', 2, 3/2) (''C4'', 3, 1/2)"
  by (simp add: two_drags_def run_def step_def render_def init_def handler_defs
      selectedEvents_def pitches_of_def overlap_def Let_def)

text \<open>
  C2. A release removes every event on the anchor pitch whose interval meets the drawn
  range \<open>[lo, hi]\<close>, inserts the one note \<open>(p, lo, hi - lo + 0.5)\<close> and clears the drag. The
  code inserts that note and clears the drag, but the removal misses an event that starts
  before \<open>lo\<close>: with the C4 note \<open>[2, 3.5)\<close> in the track, a click on C4 at beat 3
  (\<open>lo = hi = 3\<close>) keeps it, although its interval meets \<open>[3, 3]\<close>.
\<close>

theorem release_keeps_note_reaching_into_range:
  "selectedEvents (handleNoteMouseUp ''C4'' 3
      ((lead_with [(''C4'', 2, 3/2)])\<lparr>dragStart := Some (''C4'', 3), dragCurrent := Some (''C4'', 3)\<rparr>))
     = [(''C4'', 2, 3/2), (''C4'', 3, 1/2)]
   \<and> ''C4'' \<in> pitches_of (''C4'', 2, 3/2)
   \<and> meets_range (''C4'', 2, 3/2) (min 3 3) (max 3 3)"
  by (simp add: lead_with_def init_def handler_defs selectedEvents_def pitches_of_def
      meets_range_def synthTrack_def Let_def)

lemma handleNoteContextMenu_eq:
  "handleNoteContextMenu pitch beat s =
     (case selectedTrack s of
        None \<Rightarrow> s
      | Some t \<Rightarrow>
          s\<lparr>tracks := (tracks s)[nat (selectedTrackIdx s) :=
                         t\<lparr>events := filter (\<lambda>ev. \<not> covers ev pitch beat) (events t)\<rparr>],
            dirty := True\<rparr>)"
  by (auto simp add: handleNoteContextMenu_def updateTrackEvents_def update_at covers_def
      pitches_of_def selectedTrack_def split: option.splits)

text \<open>
  C8. The secondary action at \<open>(pitch, beat)\<close> removes from the selected track exactly the
  events that sound \<open>pitch\<close> and whose interval \<open>[start, start + duration)\<close> holds \<open>beat\<close>:
  the events left are the others, in their order, and nothing is inserted. Every other
  track and every other field of the selected track stay. When no event covers the cell
  the track list is unchanged (the handler still marks the song dirty). The drag state is
  neither read nor written.
\<close>

theorem handleNoteContextMenu_point_removal:
  "selectedEvents (handleNoteContextMenu pitch beat s) =
     filter (\<lambda>ev. \<not> covers ev pitch beat) (selectedEvents s)
   \<and> length (tracks (handleNoteContextMenu pitch beat s)) = length (tracks s)
   \<and> (\<forall>k < length (tracks s).
        tracks (handleNoteContextMenu pitch beat s) ! k =
          (if int k = selectedTrackIdx s
           then (tracks s ! k)\<lparr>events := filter (\<lambda>ev. \<not> covers ev pitch beat) (events (tracks s ! k))\<rparr>
           else tracks s ! k))
   \<and> ((\<forall>ev \<in> set (selectedEvents s). \<not> covers ev pitch beat)
        \<longrightarrow> tracks (handleNoteContextMenu pitch beat s) = tracks s)
   \<and> dragStart (handleNoteContextMenu pitch beat s) = dragStart s
   \<and> dragCurrent (handleNoteContextMenu pitch beat s) = dragCurrent s
   \<and> selectedTrackIdx (handleNoteContextMenu pitch beat s) = selectedTrackIdx s"
proof (cases "selectedTrack s")
  case None
  then show ?thesis
    by (auto simp add: handleNoteContextMenu_eq selectedEvents_def selectedTrack_def
        split: if_splits)
next
  case (Some t)
  then have rng: "0 \<le> selectedTrackIdx s" "selectedTrackIdx s < int (length (tracks s))"
    and t: "t = tracks s ! nat (selectedTrackIdx s)"
    by (auto simp add: selectedTrack_def split: if_splits)
  let ?s' = "handleNoteContextMenu pitch beat s"
  let ?t' = "t\<lparr>events := filter (\<lambda>ev. \<not> covers ev pitch beat) (events t)\<rparr>"
  have eq: "?s' = s\<lparr>tracks := (tracks s)[nat (selectedTrackIdx s) := ?t'], dirty := True\<rparr>"
    using Some by (simp add: handleNoteContextMenu_eq)
  have sel: "selectedTrack ?s' = Some ?t'"
    using rng by (simp add: eq selectedTrack_def)
  have 1: "selectedEvents ?s' = filter (\<lambda>ev. \<not> covers ev pitch beat) (selectedEvents s)"
    using sel Some by (simp add: selectedEvents_def)
  have 2: "length (tracks ?s') = length (tracks s)"
    by (simp add: eq)
  have 3: "\<forall>k < length (tracks s).
        tracks ?s' ! k =
          (if int k = selectedTrackIdx s
           then (tracks s ! k)\<lparr>events := filter (\<lambda>ev. \<not> covers ev pitch beat) (events (tracks s ! k))\<rparr>
           else tracks s ! k)"
    using rng t by (auto simp add: eq nth_list_update)
  have 4: "tracks ?s' = tracks s" if "\<forall>ev \<in> set (selectedEvents s). \<not> covers ev pitch beat"
  proof -
    have "filter (\<lambda>ev. \<not> covers ev pitch beat) (events t) = events t"
      using that Some by (simp add: selectedEvents_def)
    then have "?t' = t" by simp
    then show ?thesis using t by (simp add: eq)
  qed
  have 5: "dragStart ?s' = dragStart s" "dragCurrent ?s' = dragCurrent s"
    "selectedTrackIdx ?s' = selectedTrackIdx s"
    by (simp_all add: eq)
  from 1 2 3 4 5 show ?thesis by blast
qed

theorem handleNoteContextMenu_point_removal_witness:
  "selectedEvents (handleNoteContextMenu ''C4'' (5/2) (lead_with [(''E4'', 0, 1/2), (''C4'', 2, 1)]))
     = [(''E4'', 0, 1/2)]
   \<and> list_all (\<lambda>ev. \<not> covers ev ''C4'' 3) (selectedEvents (lead_with [(''E4'', 0, 1/2), (''C4'', 2, 1)]))
   \<and> tracks (handleNoteContextMenu ''C4'' 3 (lead_with [(''E4'', 0, 1/2), (''C4'', 2, 1)]))
       = tracks (lead_with [(''E4'', 0, 1/2), (''C4'', 2, 1)])"
proof -
  let ?s = "lead_with [(''E4'', 0, 1/2), (''C4'', 2, 1)]"
  have ev: "selectedEvents ?s = [(''E4'', 0, 1/2), (''C4'', 2, 1)]"
    by (simp add: selectedEvents_def selectedTrack_def lead_with_def init_def synthTrack_def)
  have none: "list_all (\<lambda>ev. \<not> covers ev ''C4'' 3) (selectedEvents ?s)"
    by (simp add: ev covers_def pitches_of_def)
  have "filter (\<lambda>ev. \<not> covers ev ''C4'' (5/2)) (selectedEvents ?s) = [(''E4'', 0, 1/2)]"
    by (simp add: ev covers_def pitches_of_def)
  with none show ?thesis
    using handleNoteContextMenu_point_removal [of "''C4''" "5/2" ?s]
      handleNoteContextMenu_point_removal [of "''C4''" 3 ?s]
    by (simp add: list_all_iff)
qed

section \<open>Song sync\<close>

lemmas build_defs = songData_def buildSamplesObj_def buildSynthConfigsObj_def buildTracksObj_def

lemma songData_net [simp]: "songData (s\<lparr>net := n\<rparr>) = songData s"
  by (simp add: build_defs)

lemma songData_lastSongData [simp]: "songData (s\<lparr>lastSongData := l\<rparr>) = songData s"
  by (simp add: build_defs)

lemma songData_dirty [simp]: "songData (s\<lparr>dirty := d\<rparr>) = songData s"
  by (simp add: build_defs)

lemma songData_chatLoading [simp]: "songData (s\<lparr>chatLoading := c\<rparr>) = songData s"
  by (simp add: build_defs)

text \<open>A push is made when the song is dirty or differs from the snapshot.\<close>

lemma ensure_resolved_pushes:
  "dirty s \<or> lastSongData s \<noteq> Some (songData s) \<Longrightarrow>
     ensureSongIsCurrent (Resolved st) s =
       (None, s\<lparr>net := net s @ [CreateSong (songData s)],
                lastSongData := Some (songData s), dirty := False\<rparr>)"
  unfolding ensureSongIsCurrent_def send_def by auto

lemma ensure_rejected_pushes:
  "dirty s \<or> lastSongData s \<noteq> Some (songData s) \<Longrightarrow>
     ensureSongIsCurrent Rejected s =
       (Some FetchFailed, s\<lparr>net := net s @ [CreateSong (songData s)]\<rparr>)"
  unfolding ensureSongIsCurrent_def send_def by auto

lemma ensure_clean:
  "\<not> dirty s \<Longrightarrow> lastSongData s = Some (songData s) \<Longrightarrow> ensureSongIsCurrent f s = (None, s)"
  by (simp add: ensureSongIsCurrent_def)

lemma ensure_resolved_state:
  "ensureSongIsCurrent (Resolved st) s =
     (None, if \<not> dirty s \<and> Some (songData s) = lastSongData s then s
            else s\<lparr>net := net s @ [CreateSong (songData s)],
                   lastSongData := Some (songData s), dirty := False\<rparr>)"
  by (simp add: ensureSongIsCurrent_def send_def)

lemma ensure_resolved_clean:
  "\<not> dirty (snd (ensureSongIsCurrent (Resolved st) s))
   \<and> lastSongData (snd (ensureSongIsCurrent (Resolved st) s))
       = Some (songData (snd (ensureSongIsCurrent (Resolved st) s)))"
proof (cases "dirty s \<or> lastSongData s \<noteq> Some (songData s)")
  case True
  show ?thesis
    unfolding ensure_resolved_pushes [OF True] by simp
next
  case False
  then show ?thesis by (simp add: ensure_clean)
qed

lemma ensure_returned_clean:
  assumes "fst (ensureSongIsCurrent f s) = None"
  shows "\<not> dirty (snd (ensureSongIsCurrent f s))
   \<and> lastSongData (snd (ensureSongIsCurrent f s)) = Some (songData (snd (ensureSongIsCurrent f s)))"
proof (cases f)
  case Rejected
  have "\<not> (dirty s \<or> lastSongData s \<noteq> Some (songData s))"
  proof
    assume "dirty s \<or> lastSongData s \<noteq> Some (songData s)"
    then have "fst (ensureSongIsCurrent Rejected s) = Some FetchFailed"
      by (simp add: ensure_rejected_pushes)
    with assms Rejected show False by simp
  qed
  then show ?thesis by (simp add: ensure_clean)
next
  case (Resolved st)
  then show ?thesis by (simp add: ensure_resolved_clean)
qed

lemma ensure_each_clean:
  "\<not> dirty s \<Longrightarrow> lastSongData s = Some (songData s) \<Longrightarrow> ensure_each sts s = s"
  by (induction sts) (simp_all add: ensure_each_def ensure_clean)

lemma ensure_each_Cons:
  "ensure_each (st # sts) s = ensure_each sts (snd (ensureSongIsCurrent (Resolved st) s))"
  by (simp add: ensure_each_def)

lemmas mutation_defs =
  handleAddTrack_def handleRemoveTrack_def handleSynthParamChange_def
  handleTrackGainChange_def handleNoteMouseUp_def handleNoteContextMenu_def
  updateTrackEvents_def getNextSynthId_def

text \<open>An edit that takes effect marks the song dirty and sends nothing.\<close>

lemma mutate_dirty: "takes_effect m s \<Longrightarrow> dirty (mutate m s)"
  by (cases m) (auto simp add: mutation_defs Let_def split: option.splits prod.splits)

lemma mutate_net: "net (mutate m s) = net s"
  by (cases m) (auto simp add: mutation_defs Let_def split: option.splits prod.splits)

text \<open>
  C3. After a call of \<open>ensureSongIsCurrent\<close> that returned, a second call with no edit in
  between sends nothing and changes nothing, whatever the network would answer. After
  one edit that takes effect (add track, remove track, synth parameter, gain, release of a
  drag, point-removal), any positive number of consecutive calls, their push resolving,
  sends exactly one \<open>/create_song\<close> request; it carries the serialization of the edited
  song, which is then the snapshot, and dirty is cleared.
\<close>

theorem ensureSongIsCurrent_pushes_once:
  "(fst (ensureSongIsCurrent f1 s) = None \<longrightarrow>
      ensureSongIsCurrent f2 (snd (ensureSongIsCurrent f1 s))
        = (None, snd (ensureSongIsCurrent f1 s)))
   \<and> (takes_effect m s \<and> sts \<noteq> [] \<longrightarrow>
        ensure_each sts (mutate m s) =
          (mutate m s)\<lparr>net := net s @ [CreateSong (songData (mutate m s))],
                       lastSongData := Some (songData (mutate m s)), dirty := False\<rparr>)"
proof -
  have twice: "ensureSongIsCurrent f2 (snd (ensureSongIsCurrent f1 s))
     = (None, snd (ensureSongIsCurrent f1 s))" if "fst (ensureSongIsCurrent f1 s) = None"
    using ensure_returned_clean [OF that] by (simp add: ensure_clean)
  have once: "ensure_each sts (mutate m s) =
          (mutate m s)\<lparr>net := net s @ [CreateSong (songData (mutate m s))],
                       lastSongData := Some (songData (mutate m s)), dirty := False\<rparr>"
    if eff: "takes_effect m s" and ne: "sts \<noteq> []"
  proof -
    obtain st' sts' where sts: "sts = st' # sts'"
      using ne by (cases sts) auto
    let ?m = "mutate m s"
    let ?s1 = "snd (ensureSongIsCurrent (Resolved st') ?m)"
    have d: "dirty ?m" using eff by (rule mutate_dirty)
    then have first: "?s1 = ?m\<lparr>net := net ?m @ [CreateSong (songData ?m)],
                       lastSongData := Some (songData ?m), dirty := False\<rparr>"
      by (simp add: ensure_resolved_pushes)
    have "ensure_each sts ?m = ensure_each sts' ?s1"
      by (simp add: sts ensure_each_Cons)
    also have "\<dots> = ?s1"
      using ensure_resolved_clean [of st' ?m] by (simp add: ensure_each_clean)
    finally show ?thesis
      by (simp add: first mutate_net)
  qed
  from twice once show ?thesis by blast
qed

theorem ensureSongIsCurrent_pushes_once_witness:
  "fst (ensureSongIsCurrent (Resolved 200) (lead_with [])) = None
   \<and> net (snd (ensureSongIsCurrent Rejected (snd (ensureSongIsCurrent (Resolved 200) (lead_with [])))))
       = net (snd (ensureSongIsCurrent (Resolved 200) (lead_with [])))
   \<and> takes_effect (TrackGainChange (1/2)) (lead_with []) \<and> [200, 200, 200] \<noteq> ([] :: nat list)
   \<and> net (ensure_each [200, 200, 200] (mutate (TrackGainChange (1/2)) (lead_with [])))
       = [CreateSong (songData (mutate (TrackGainChange (1/2)) (lead_with [])))]
   \<and> \<not> dirty (ensure_each [200, 200, 200] (mutate (TrackGainChange (1/2)) (lead_with [])))"
proof -
  have h: "takes_effect (TrackGainChange (1/2)) (lead_with []) \<and> [200, 200, 200] \<noteq> ([] :: nat list)"
    by simp
  have n: "net (lead_with []) = []"
    by (simp add: lead_with_def init_def)
  have r: "fst (ensureSongIsCurrent (Resolved 200) (lead_with [])) = None"
    by (simp add: ensure_resolved_state)
  from h n r show ?thesis
    using ensureSongIsCurrent_pushes_once
      [where m = "TrackGainChange (1/2)" and s = "lead_with []" and sts = "[200, 200, 200]"
         and ?f1.0 = "Resolved 200" and ?f2.0 = Rejected]
    by simp
qed

text \<open>
  C5. When the push inside \<open>ensureSongIsCurrent\<close> is rejected, the call throws and leaves
  tracks, synth configs, samples, the snapshot and the dirty flag as they were (a set flag
  stays set); only the attempt is on the wire. The failure does not pass for a sync: the
  next call pushes again, and \<open>handlePlay\<close>, \<open>handleSave\<close> and \<open>handleChat\<close> stop with the
  error before their own request (\<open>handleChat\<close> has set its loading flag by then).
\<close>

theorem ensureSongIsCurrent_rejected:
  "dirty s \<or> lastSongData s \<noteq> Some (songData s) \<Longrightarrow>
     ensureSongIsCurrent Rejected s
       = (Some FetchFailed, s\<lparr>net := net s @ [CreateSong (songData s)]\<rparr>)
     \<and> tracks (snd (ensureSongIsCurrent Rejected s)) = tracks s
     \<and> synthConfigs (snd (ensureSongIsCurrent Rejected s)) = synthConfigs s
     \<and> samples (snd (ensureSongIsCurrent Rejected s)) = samples s
     \<and> lastSongData (snd (ensureSongIsCurrent Rejected s)) = lastSongData s
     \<and> dirty (snd (ensureSongIsCurrent Rejected s)) = dirty s
     \<and> net (snd (ensureSongIsCurrent f (snd (ensureSongIsCurrent Rejected s))))
         = net s @ [CreateSong (songData s), CreateSong (songData s)]
     \<and> handlePlay Rejected f2 s = ensureSongIsCurrent Rejected s
     \<and> handleSave Rejected f2 s = ensureSongIsCurrent Rejected s
     \<and> handleChat Rejected f3 f4 s
         = (Some FetchFailed, s\<lparr>chatLoading := True, net := net s @ [CreateSong (songData s)]\<rparr>)"
proof -
  assume push: "dirty s \<or> lastSongData s \<noteq> Some (songData s)"
  let ?s' = "s\<lparr>net := net s @ [CreateSong (songData s)]\<rparr>"
  have r: "ensureSongIsCurrent Rejected s = (Some FetchFailed, ?s')"
    using push by (rule ensure_rejected_pushes)
  have again: "dirty ?s' \<or> lastSongData ?s' \<noteq> Some (songData ?s')"
    using push by simp
  have next_call: "net (snd (ensureSongIsCurrent f (snd (ensureSongIsCurrent Rejected s))))
           = net s @ [CreateSong (songData s), CreateSong (songData s)]"
    using ensure_rejected_pushes [OF again] ensure_resolved_pushes [OF again]
    by (cases f) (simp_all add: r)
  have play: "handlePlay Rejected f2 s = ensureSongIsCurrent Rejected s"
    by (simp add: handlePlay_def r)
  have save: "handleSave Rejected f2 s = ensureSongIsCurrent Rejected s"
    by (simp add: handleSave_def r)
  have "dirty (s\<lparr>chatLoading := True\<rparr>)
      \<or> lastSongData (s\<lparr>chatLoading := True\<rparr>) \<noteq> Some (songData (s\<lparr>chatLoading := True\<rparr>))"
    using push by simp
  then have chat: "handleChat Rejected f3 f4 s
         = (Some FetchFailed, s\<lparr>chatLoading := True, net := net s @ [CreateSong (songData s)]\<rparr>)"
    by (simp add: handleChat_def ensure_rejected_pushes)
  from next_call play save chat show ?thesis
    by (simp add: r)
qed

theorem ensureSongIsCurrent_rejected_witness:
  "(dirty ((lead_with [])\<lparr>dirty := True\<rparr>)
      \<or> lastSongData ((lead_with [])\<lparr>dirty := True\<rparr>) \<noteq> Some (songData ((lead_with [])\<lparr>dirty := True\<rparr>)))
   \<and> fst (ensureSongIsCurrent Rejected ((lead_with [])\<lparr>dirty := True\<rparr>)) = Some FetchFailed
   \<and> dirty (snd (ensureSongIsCurrent Rejected ((lead_with [])\<lparr>dirty := True\<rparr>)))
   \<and> lastSongData (snd (ensureSongIsCurrent Rejected ((lead_with [])\<lparr>dirty := True\<rparr>))) = None"
proof -
  have h: "dirty ((lead_with [])\<lparr>dirty := True\<rparr>)
      \<or> lastSongData ((lead_with [])\<lparr>dirty := True\<rparr>) \<noteq> Some (songData ((lead_with [])\<lparr>dirty := True\<rparr>))"
    by simp
  have l: "lastSongData (lead_with []) = None"
    by (simp add: lead_with_def init_def)
  from h l show ?thesis
    using ensureSongIsCurrent_rejected [OF h, of Rejected Rejected Rejected Rejected]
    by simp
qed

section \<open>Responses of the service\<close>

text \<open>The state after a chat whose push and edit request resolve. The snapshot is the
  serialization of the song the handler started with.\<close>

lemma handleChat_resolved:
  "snd (handleChat (Resolved st) (Resolved data) f3 s) =
     s\<lparr>net := net (snd (ensureSongIsCurrent (Resolved st) s)) @ [LlmEditSong (chatPrompt s), PlaySong],
       tracks := r_Tracks data, synthConfigs := r_SynthConfigs data, dirty := False,
       lastSongData := Some (songData s), selectedTrackIdx := 0, chatPrompt := [],
       chatLoading := False\<rparr>"
  by (cases f3) (simp_all add: handleChat_def ensure_resolved_state send_def)

text \<open>
  C4. When an AI-assisted edit completes, tracks and synth configs are those of the
  response, dirty is cleared, and the snapshot is the serialization of the new song. The
  code replaces the song and clears the flag, but its snapshot is the serialization of the
  song before the edit, the same text that \<open>ensureSongIsCurrent\<close> stored a moment earlier:
  from the empty song and a response with one track, the snapshot is that of the empty
  song and differs from the serialization of the state the handler leaves.
\<close>

theorem handleChat_snapshot_is_stale:
  "tracks (snd (handleChat (Resolved 200) (Resolved edited) (Resolved 200) init)) = r_Tracks edited
   \<and> synthConfigs (snd (handleChat (Resolved 200) (Resolved edited) (Resolved 200) init))
       = r_SynthConfigs edited
   \<and> \<not> dirty (snd (handleChat (Resolved 200) (Resolved edited) (Resolved 200) init))
   \<and> lastSongData (snd (handleChat (Resolved 200) (Resolved edited) (Resolved 200) init))
       = Some (songData init)
   \<and> lastSongData (snd (handleChat (Resolved 200) (Resolved edited) (Resolved 200) init))
       \<noteq> Some (songData (snd (handleChat (Resolved 200) (Resolved edited) (Resolved 200) init)))"
  by (simp add: handleChat_resolved build_defs init_def edited_def)

text \<open>
  C6 as stated: a response whose track refers to no config of the response is rejected and
  the local song is not replaced. It fails: \<open>handleRevert\<close> and \<open>handleChat\<close> adopt the
  response \<open>dangling\<close> in place of the three tracks.
\<close>

theorem malformed_response_adopted:
  "\<not> cfg_ids_resolve dangling
   \<and> tracks (snd (handleRevert (Resolved dangling) three_tracks)) = [synthTrack ''lead'' ''ghost'' []]
   \<and> synthConfigs (snd (handleRevert (Resolved dangling) three_tracks)) = []
   \<and> tracks (snd (handleChat (Resolved 200) (Resolved dangling) (Resolved 200) three_tracks))
       = [synthTrack ''lead'' ''ghost'' []]
   \<and> synthConfigs (snd (handleChat (Resolved 200) (Resolved dangling) (Resolved 200) three_tracks)) = []
   \<and> tracks three_tracks \<noteq> [synthTrack ''lead'' ''ghost'' []]"
  by (simp add: handleChat_resolved handleRevert_def send_def dangling_def cfg_ids_resolve_def
      three_tracks_def)

text \<open>
  C6, amended. The response of a revert or of an AI-assisted edit is adopted without any
  check of its shape: the local tracks and synth configs become those of the response,
  whether or not every \<open>cfg_id\<close> resolves.
\<close>

theorem response_adopted_unchecked:
  "tracks (snd (handleRevert (Resolved r) s)) = r_Tracks r
   \<and> synthConfigs (snd (handleRevert (Resolved r) s)) = r_SynthConfigs r
   \<and> tracks (snd (handleChat (Resolved st) (Resolved r) f3 s)) = r_Tracks r
   \<and> synthConfigs (snd (handleChat (Resolved st) (Resolved r) f3 s)) = r_SynthConfigs r"
  by (simp add: handleChat_resolved handleRevert_def send_def)

theorem response_adopted_unchecked_witness:
  "\<not> cfg_ids_resolve dangling
   \<and> tracks (snd (handleRevert (Resolved dangling) init)) = r_Tracks dangling
   \<and> tracks (snd (handleChat (Resolved 200) (Resolved dangling) Rejected init)) = r_Tracks dangling"
  using response_adopted_unchecked [of dangling init 200 Rejected]
  by (simp add: dangling_def cfg_ids_resolve_def)

section \<open>Serialization\<close>

text \<open>
  C7 as stated: envelope and waveform fields are written exactly for the configs that a
  track of type \<open>'Track'\<close> refers to, and the config of a sample track never carries them.
  The last part fails for a config that a synth track and a sample track share: after a
  revert to such a song, the serialized config of the sample track "kick" carries the
  envelope.
\<close>

theorem shared_config_carries_envelope:
  "type (tracks shared_cfg ! 1) = WavTrack
   \<and> cfg_id (tracks shared_cfg ! 1) = o_id (buildSynthConfigsObj shared_cfg ! 0)
   \<and> o_volume (buildSynthConfigsObj shared_cfg ! 0) = Some (1/2)
   \<and> o_waveform (buildSynthConfigsObj shared_cfg ! 0) = Some ''sine''
   \<and> \<not> no_envelope (buildSynthConfigsObj shared_cfg ! 0)"
  by (simp add: shared_cfg_def shared_song_def step_def render_def getNextSynthId_def
      handleRevert_def send_def init_def buildSynthConfigsObj_def synthTrack_def wavTrack_def
      defaultSynthParams_def no_envelope_def)

text \<open>
  C7, amended. The serialization holds one object per config, in order, with the id of the
  config, sample rate 44100 and the global bpm. For a config that at least one track of type
  \<open>'Track'\<close> refers to, the object carries volume, waveform, attack, decay, sustain and
  release as the config stores them; for every other config it carries none of them. So
  the config of a sample track carries none of them unless a synth track refers to the
  same config.
\<close>

theorem buildSynthConfigsObj_envelope:
  "length (buildSynthConfigsObj s) = length (synthConfigs s)
   \<and> (\<forall>k < length (synthConfigs s).
        o_id (buildSynthConfigsObj s ! k) = id_cfg (synthConfigs s ! k)
        \<and> o_sample_rate (buildSynthConfigsObj s ! k) = 44100
        \<and> o_bpm (buildSynthConfigsObj s ! k) = bpm s
        \<and> (synth_referenced s (synthConfigs s ! k) \<longrightarrow>
              o_volume (buildSynthConfigsObj s ! k) = volume (synthConfigs s ! k)
              \<and> o_waveform (buildSynthConfigsObj s ! k) = waveform (synthConfigs s ! k)
              \<and> o_attack (buildSynthConfigsObj s ! k) = attack (synthConfigs s ! k)
              \<and> o_decay (buildSynthConfigsObj s ! k) = decay (synthConfigs s ! k)
              \<and> o_sustain (buildSynthConfigsObj s ! k) = sustain (synthConfigs s ! k)
              \<and> o_release (buildSynthConfigsObj s ! k) = release (synthConfigs s ! k))
        \<and> (\<not> synth_referenced s (synthConfigs s ! k) \<longrightarrow>
              no_envelope (buildSynthConfigsObj s ! k))
        \<and> (\<forall>t \<in> set (tracks s).
              type t = WavTrack \<and> cfg_id t = id_cfg (synthConfigs s ! k)
              \<and> \<not> synth_referenced s (synthConfigs s ! k)
              \<longrightarrow> no_envelope (buildSynthConfigsObj s ! k)))"
  by (auto simp add: buildSynthConfigsObj_def synth_referenced_def list_ex_iff no_envelope_def)

theorem buildSynthConfigsObj_envelope_witness:
  "\<not> synth_referenced kick_and_lead (synthConfigs kick_and_lead ! 0)
   \<and> synth_referenced kick_and_lead (synthConfigs kick_and_lead ! 1)
   \<and> wavTrack ''kick'' ''synth-1'' ''/tmp/kick.wav'' \<in> set (tracks kick_and_lead)
   \<and> no_envelope (buildSynthConfigsObj kick_and_lead ! 0)
   \<and> o_volume (buildSynthConfigsObj kick_and_lead ! 1) = Some (1/2)
   \<and> o_waveform (buildSynthConfigsObj kick_and_lead ! 1) = Some ''sine''"
proof -
  have len: "0 < length (synthConfigs kick_and_lead)" "1 < length (synthConfigs kick_and_lead)"
    by (simp_all add: kick_and_lead_def)
  have ref: "\<not> synth_referenced kick_and_lead (synthConfigs kick_and_lead ! 0)"
    "synth_referenced kick_and_lead (synthConfigs kick_and_lead ! 1)"
    by (simp_all add: synth_referenced_def kick_and_lead_def synthTrack_def wavTrack_def
        bareConfig_def defaultSynthParams_def)
  have mem: "wavTrack ''kick'' ''synth-1'' ''/tmp/kick.wav'' \<in> set (tracks kick_and_lead)"
    by (simp add: kick_and_lead_def)
  have cfg: "volume (synthConfigs kick_and_lead ! 1) = Some (1/2)"
    "waveform (synthConfigs kick_and_lead ! 1) = Some ''sine''"
    by (simp_all add: kick_and_lead_def defaultSynthParams_def)
  from buildSynthConfigsObj_envelope [of kick_and_lead] len ref
  have "no_envelope (buildSynthConfigsObj kick_and_lead ! 0)"
    and "o_volume (buildSynthConfigsObj kick_and_lead ! 1) = volume (synthConfigs kick_and_lead ! 1)"
    and "o_waveform (buildSynthConfigsObj kick_and_lead ! 1) = waveform (synthConfigs kick_and_lead ! 1)"
    by blast+
  with ref mem cfg show ?thesis by simp
qed

subsection \<open>The samples object\<close>

lemma samples_mutate: "samples (mutate m s) = samples s"
  by (cases m) (auto simp add: mutation_defs Let_def split: option.splits prod.splits)

lemma samples_ensure: "samples (snd (ensureSongIsCurrent f s)) = samples s"
  by (simp add: ensureSongIsCurrent_def send_def split: fetch_result.splits)

lemma samples_handlePlay: "samples (snd (handlePlay f1 f2 s)) = samples s"
  using samples_ensure [of f1 s]
  by (auto simp add: handlePlay_def send_def split: prod.splits option.splits fetch_result.splits)

lemma samples_handleSave: "samples (snd (handleSave f1 f2 s)) = samples s"
  using samples_ensure [of f1 s]
  by (auto simp add: handleSave_def send_def split: prod.splits option.splits fetch_result.splits)

lemma samples_handleChat: "samples (snd (handleChat f1 f2 f3 s)) = samples s"
  using samples_ensure [of f1 "s\<lparr>chatLoading := True\<rparr>"]
  by (auto simp add: handleChat_def send_def Let_def
      split: prod.splits option.splits fetch_result.splits)

lemma samples_render: "samples (render s) = samples s"
  by (simp add: render_def getNextSynthId_def)

text \<open>Only a revert writes \<open>samples\<close>.\<close>

lemma samples_handle: "\<not> is_revert e \<Longrightarrow> samples (handle e s) = samples s"
  by (cases e)
    (simp_all add: samples_mutate samples_handlePlay samples_handleSave samples_handleChat
      handleSelectTrack_def handleNoteMouseDown_def handleNoteMouseEnter_def)

lemma samples_run:
  "\<forall>e \<in> set es. \<not> is_revert e \<Longrightarrow> samples (run es s) = samples s"
proof (induction es arbitrary: s)
  case Nil
  then show ?case by (simp add: run_def)
next
  case (Cons e es)
  have "run (e # es) s = run es (step e s)"
    by (simp add: run_def)
  moreover have "samples (step e s) = samples s"
    using Cons.prems by (simp add: step_def samples_render samples_handle)
  ultimately show ?case
    using Cons.IH [of "step e s"] Cons.prems by simp
qed

lemma put_sample_map_of:
  "map_of (put_sample t acc) =
     map_of acc ++ map_of (List.map_filter (\<lambda>t. map_option (Pair (name t)) (file_reference t)) [t])"
proof (cases "file_reference t")
  case None
  then have "\<not> (type t = WavTrack \<and> truthy (or_str (fullPath t) (wavFile t)))"
    by (auto simp add: file_reference_def or_str_def truthy_def split: if_splits)
  with None show ?thesis
    by (auto simp add: put_sample_def)
next
  case (Some v)
  then have "type t = WavTrack \<and> truthy (or_str (fullPath t) (wavFile t))"
    and "(case or_str (or_str (fullPath t) (wavFile t)) (Some [])
            of Some v \<Rightarrow> v | None \<Rightarrow> []) = v"
    by (auto simp add: file_reference_def or_str_def truthy_def split: if_splits)
  with Some show ?thesis
    by (simp add: put_sample_def update_conv')
qed

text \<open>The rebuilt object maps the name of each sample track that has a file reference to
  that reference; of two tracks with one name the later one counts.\<close>

lemma rebuild_fold:
  "map_of (fold put_sample ts acc) =
   map_of acc ++
     map_of (rev (List.map_filter (\<lambda>t. map_option (Pair (name t)) (file_reference t)) ts))"
proof (induction ts arbitrary: acc)
  case Nil
  then show ?case by simp
next
  case (Cons t ts)
  let ?g = "\<lambda>t. map_option (Pair (name t)) (file_reference t)"
  have "map_of (fold put_sample (t # ts) acc) =
          map_of (put_sample t acc) ++ map_of (rev (List.map_filter ?g ts))"
    by (simp add: Cons.IH)
  also have "\<dots> = (map_of acc ++ map_of (List.map_filter ?g [t]))
                     ++ map_of (rev (List.map_filter ?g ts))"
    by (simp only: put_sample_map_of)
  also have "\<dots> = map_of acc ++ (map_of (List.map_filter ?g [t])
                     ++ map_of (rev (List.map_filter ?g ts)))"
    by (simp only: map_add_assoc)
  also have "map_of (List.map_filter ?g [t]) ++ map_of (rev (List.map_filter ?g ts))
               = map_of (rev (List.map_filter ?g (t # ts)))"
    by (cases "file_reference t") simp_all
  finally show ?case .
qed

text \<open>
  C10. While the stored \<open>samples\<close> object is not empty, the samples field of the
  serialization is that object as it is, whatever the tracks are; since no handler but the
  revert writes \<open>samples\<close> (a resolved revert stores the object of the response, or the
  empty one if the response has none; the initial one is empty), this also holds after
  any sequence of events without a revert, so tracks added or removed since are not
  reflected. Only when the stored object is empty is the field rebuilt from the file
  references of the current sample tracks.
\<close>

theorem buildSamplesObj_stored_samples_win:
  "(samples s \<noteq> [] \<longrightarrow> o_samples (songData s) = samples s)
   \<and> (samples s \<noteq> [] \<and> (\<forall>e \<in> set es. \<not> is_revert e) \<longrightarrow>
        o_samples (songData (run es s)) = samples s)
   \<and> (samples s = [] \<longrightarrow>
        map_of (o_samples (songData s)) =
          map_of (rev (List.map_filter (\<lambda>t. map_option (Pair (name t)) (file_reference t))
                         (tracks s))))
   \<and> (\<not> is_revert e \<longrightarrow> samples (step e s) = samples s)
   \<and> samples (step (Revert (Resolved r)) s) = (case r_samples r of Some m \<Rightarrow> m | None \<Rightarrow> [])
   \<and> samples (step (Revert Rejected) s) = samples s
   \<and> samples init = []"
proof -
  have 1: "o_samples (songData s') = samples s'" if "samples s' \<noteq> []" for s'
    using that by (simp add: songData_def buildSamplesObj_def)
  have 2: "o_samples (songData (run es s)) = samples s"
    if "samples s \<noteq> []" "\<forall>e \<in> set es. \<not> is_revert e"
    using that 1 [of "run es s"] by (simp add: samples_run)
  have 3: "map_of (o_samples (songData s)) =
          map_of (rev (List.map_filter (\<lambda>t. map_option (Pair (name t)) (file_reference t))
                         (tracks s)))" if "samples s = []"
    using that by (simp add: songData_def buildSamplesObj_def rebuild_fold)
  have 4: "samples (step e s) = samples s" if "\<not> is_revert e"
    using that by (simp add: step_def samples_render samples_handle)
  have 5: "samples (step (Revert (Resolved r)) s) = (case r_samples r of Some m \<Rightarrow> m | None \<Rightarrow> [])"
    "samples (step (Revert Rejected) s) = samples s"
    by (simp_all add: step_def samples_render handleRevert_def send_def)
  have 6: "samples init = []"
    by (simp add: init_def)
  from 1 [of s] 2 3 4 5 6 show ?thesis by blast
qed

theorem buildSamplesObj_stored_samples_win_witness:
  "samples (step (Revert (Resolved kick_reverted)) init) \<noteq> []
   \<and> list_all (\<lambda>e. \<not> is_revert e) add_snare
   \<and> o_samples (songData (run add_snare (step (Revert (Resolved kick_reverted)) init)))
       = [(''kick'', ''/tmp/kick.wav'')]
   \<and> map name (tracks (run add_snare (step (Revert (Resolved kick_reverted)) init))) = [''snare'']"
proof -
  let ?s = "step (Revert (Resolved kick_reverted)) init"
  have st: "samples ?s = [(''kick'', ''/tmp/kick.wav'')]"
    by (simp add: step_def render_def getNextSynthId_def handleRevert_def send_def
        kick_reverted_def)
  have ev: "list_all (\<lambda>e. \<not> is_revert e) add_snare"
    by (simp add: add_snare_def)
  have tr: "map name (tracks (run add_snare ?s)) = [''snare'']"
    by (simp add: add_snare_def run_def step_def render_def getNextSynthId_def
        handleRevert_def send_def kick_reverted_def init_def handleAddTrack_def
        handleRemoveTrack_def indexed_def emptyNewTrack_def wavTrack_def Let_def)
  from st ev tr show ?thesis
    using buildSamplesObj_stored_samples_win
      [where s = ?s and es = add_snare and e = "Mutate AddTrack" and r = kick_reverted]
    by (simp add: list_all_iff)
qed

end
